theory Spec2Isabelle
  imports Main "HOL-Library.Char_ord" "HOL-Library.List_Lexorder"
begin

section \<open>The calendar feed function (functions/api/calendar.ts)\<close>

text \<open>
  A shallow embedding of the Cloudflare Pages function that merges per-team match data into
  an ICS calendar, a JSON Feed or an Atom feed.

  Strings are \<^typ>\<open>string\<close>, read as well-formed UTF-8 text: an ASCII character is one
  \<^typ>\<open>char\<close>, any other code point is the sequence of its UTF-8 bytes. White space
  (the regular expression class \<open>\s\<close>, \<open>trim\<close>, \<open>parseInt\<close>) is the full set of the
  platform, each character by its UTF-8 encoding, and strings are ordered as the platform
  orders them, by UTF-16 code units. \<open>toLowerCase\<close> is modelled for the letters A to Z
  only: it is the platform's function on ASCII strings, and the properties below that
  depend on letter case are stated for ASCII strings. A \<open>number\<close> that holds a timestamp
  or a reminder is an \<^typ>\<open>int\<close>.
\<close>

subsection \<open>String operations of the platform\<close>

definition backslash :: char where
  "backslash = CHR 0x5C"

definition dquote :: char where
  "dquote = CHR 0x22"

definition apostrophe :: char where
  "apostrophe = CHR 0x27"

primrec startsWith :: "string \<Rightarrow> string \<Rightarrow> bool" where
  "startsWith s [] = True"
| "startsWith s (p # ps) = (case s of [] \<Rightarrow> False | c # cs \<Rightarrow> c = p \<and> startsWith cs ps)"

text \<open>
  The white space of the platform, which \<open>\s\<close>, \<open>trim\<close> and \<open>parseInt\<close> share: TAB, LF,
  VT, FF, CR, SPACE, U+00A0, U+1680, U+2000 to U+200A, U+2028, U+2029, U+202F, U+205F,
  U+3000 and U+FEFF, each as its UTF-8 encoding.
\<close>

definition white_space :: "string list" where
  "white_space =
     [[CHR 0x09], [CHR 0x0A], [CHR 0x0B], [CHR 0x0C], [CHR 0x0D], [CHR 0x20],
      [CHR 0xC2, CHR 0xA0],
      [CHR 0xE1, CHR 0x9A, CHR 0x80],
      [CHR 0xE2, CHR 0x80, CHR 0x80], [CHR 0xE2, CHR 0x80, CHR 0x81],
      [CHR 0xE2, CHR 0x80, CHR 0x82], [CHR 0xE2, CHR 0x80, CHR 0x83],
      [CHR 0xE2, CHR 0x80, CHR 0x84], [CHR 0xE2, CHR 0x80, CHR 0x85],
      [CHR 0xE2, CHR 0x80, CHR 0x86], [CHR 0xE2, CHR 0x80, CHR 0x87],
      [CHR 0xE2, CHR 0x80, CHR 0x88], [CHR 0xE2, CHR 0x80, CHR 0x89],
      [CHR 0xE2, CHR 0x80, CHR 0x8A],
      [CHR 0xE2, CHR 0x80, CHR 0xA8], [CHR 0xE2, CHR 0x80, CHR 0xA9],
      [CHR 0xE2, CHR 0x80, CHR 0xAF],
      [CHR 0xE2, CHR 0x81, CHR 0x9F],
      [CHR 0xE3, CHR 0x80, CHR 0x80],
      [CHR 0xEF, CHR 0xBB, CHR 0xBF]]"

text \<open>
  The number of bytes of the character of \<open>tokens\<close> that the string begins with, 0 when it
  begins with none.
\<close>

definition match_length :: "string list \<Rightarrow> string \<Rightarrow> nat" where
  "match_length tokens s = (case find (startsWith s) tokens of None \<Rightarrow> 0 | Some w \<Rightarrow> length w)"

text \<open>The string without the characters of \<open>tokens\<close> it begins with.\<close>

function skip_all :: "string list \<Rightarrow> string \<Rightarrow> string" where
  "skip_all tokens [] = []"
| "skip_all tokens (c # cs) =
     (if match_length tokens (c # cs) = 0 then c # cs
      else skip_all tokens (drop (match_length tokens (c # cs) - 1) cs))"
  by pat_completeness auto
termination
  by (relation "measure (\<lambda>(tokens, s). length s)") (auto simp: less_Suc_eq_le)

definition lower_table :: "(char \<times> char) list" where
  "lower_table = zip ''ABCDEFGHIJKLMNOPQRSTUVWXYZ'' ''abcdefghijklmnopqrstuvwxyz''"

definition toLowerChar :: "char \<Rightarrow> char" where
  "toLowerChar c = (case map_of lower_table c of Some l \<Rightarrow> l | None \<Rightarrow> c)"

text \<open>
  \<open>s.toLowerCase()\<close>, for the letters A to Z. The bytes of a character beyond ASCII are
  left as they are, which is what the platform does for ASCII strings and for characters
  without a lower-case form only.
\<close>

definition toLowerCase :: "string \<Rightarrow> string" where
  "toLowerCase s = map toLowerChar s"

text \<open>
  \<open>s.replace(/[...]/g, fn)\<close> for a character class: every character of the class is
  replaced by what the callback returns for it, the others are copied.
\<close>

fun replace_class :: "(char \<Rightarrow> bool) \<Rightarrow> (char \<Rightarrow> string) \<Rightarrow> string \<Rightarrow> string" where
  "replace_class p f [] = []"
| "replace_class p f (c # cs) =
     (if p c then f c @ replace_class p f cs else c # replace_class p f cs)"

text \<open>\<open>s.replace(/c/g, "r")\<close> for a single character \<open>c\<close> and a replacement without \<open>$\<close>.\<close>

definition replace_char :: "char \<Rightarrow> string \<Rightarrow> string \<Rightarrow> string" where
  "replace_char c r s = replace_class (\<lambda>x. x = c) (\<lambda>_. r) s"

text \<open>
  \<open>s.replace(/\s+/g, "r")\<close>: each maximal run of white space is replaced by one \<open>r\<close>.
\<close>

function replace_space_runs :: "string \<Rightarrow> string \<Rightarrow> string" where
  "replace_space_runs r [] = []"
| "replace_space_runs r (c # cs) =
     (if match_length white_space (c # cs) = 0 then c # replace_space_runs r cs
      else r @ replace_space_runs r
                 (skip_all white_space (drop (match_length white_space (c # cs) - 1) cs)))"
  by pat_completeness auto
termination
proof (relation "measure (\<lambda>(r, s). length s)")
  show "wf (measure (\<lambda>(r, s). length s))" by simp
next
  fix r :: string and c :: char and cs :: string
  show "((r, cs), (r, c # cs)) \<in> measure (\<lambda>(r, s). length s)" by simp
next
  fix r :: string and c :: char and cs :: string
  have shorter: "length (skip_all tokens xs) \<le> length xs" for tokens xs
  proof (induction tokens xs rule: skip_all.induct)
    case (1 tokens)
    then show ?case by simp
  next
    case (2 tokens c cs)
    show ?case
    proof (cases "match_length tokens (c # cs) = 0")
      case True
      then show ?thesis by simp
    next
      case False
      with 2 have "length (skip_all tokens (c # cs))
          \<le> length (drop (match_length tokens (c # cs) - 1) cs)" by simp
      also have "\<dots> \<le> length (c # cs)" by simp
      finally show ?thesis .
    qed
  qed
  have "length (skip_all white_space (drop (match_length white_space (c # cs) - 1) cs))
        \<le> length (drop (match_length white_space (c # cs) - 1) cs)"
    by (rule shorter)
  also have "\<dots> \<le> length cs" by simp
  finally show "((r, skip_all white_space (drop (match_length white_space (c # cs) - 1) cs)),
                 (r, c # cs)) \<in> measure (\<lambda>(r, s). length s)"
    by simp
qed

text \<open>\<open>s.includes(f)\<close>\<close>

primrec includes_str :: "string \<Rightarrow> string \<Rightarrow> bool" where
  "includes_str [] f = (f = [])"
| "includes_str (c # cs) f = (startsWith (c # cs) f \<or> includes_str cs f)"

text \<open>\<open>s.trim()\<close>: the white space at the start and, read backwards, at the end is removed.\<close>

definition trim :: "string \<Rightarrow> string" where
  "trim s = rev (skip_all (map rev white_space) (rev (skip_all white_space s)))"

text \<open>\<open>s.split(",")\<close> for a one-character separator; the result is never empty.\<close>

fun split_str :: "char \<Rightarrow> string \<Rightarrow> string list" where
  "split_str sep [] = [[]]"
| "split_str sep (c # cs) =
     (if c = sep then [] # split_str sep cs
      else (case split_str sep cs of h # t \<Rightarrow> (c # h) # t | [] \<Rightarrow> [[c]]))"

text \<open>\<open>xs.join(sep)\<close>\<close>

fun join :: "string \<Rightarrow> string list \<Rightarrow> string" where
  "join sep [] = []"
| "join sep [x] = x"
| "join sep (x # y # ys) = x @ sep @ join sep (y # ys)"

text \<open>\<open>s.padStart(n, "c")\<close> for a one-character filler.\<close>

definition padStart :: "nat \<Rightarrow> char \<Rightarrow> string \<Rightarrow> string" where
  "padStart n c s = replicate (n - length s) c @ s"

subsection \<open>Numbers as text\<close>

definition digit_char :: "nat \<Rightarrow> char" where
  "digit_char d = ''0123456789'' ! d"

fun digits :: "nat \<Rightarrow> string" where
  "digits n = (if n < 10 then [digit_char n] else digits (n div 10) @ [digit_char (n mod 10)])"

text \<open>
  \<open>String(n)\<close> and \<open>`${n}`\<close> for an integer: the decimal numeral. From \<open>10^21\<close> on the
  platform writes exponent notation instead, which is not modelled; every valid date and
  every accepted reminder is far below.
\<close>

definition String :: "int \<Rightarrow> string" where
  "String n = (if n < 0 then ''-'' @ digits (nat (- n)) else digits (nat n))"

definition is_digit :: "char \<Rightarrow> bool" where
  "is_digit c = (c \<in> set ''0123456789'')"

definition digit_value :: "char \<Rightarrow> nat" where
  "digit_value c = length (takeWhile (\<lambda>d. d \<noteq> c) ''0123456789'')"

definition digits_value :: "string \<Rightarrow> nat" where
  "digits_value ds = foldl (\<lambda>acc c. 10 * acc + digit_value c) 0 ds"

text \<open>
  \<open>parseInt(s, 10)\<close>: leading white space is skipped, one sign is read, then the longest
  run of decimal digits; whatever follows is ignored. \<open>None\<close> is \<open>NaN\<close> (no digit found).
  The value is the exact integer; the platform rounds it to a double, which changes no
  integer up to \<open>2^53\<close> and no comparison with the bounds 0 and 1440.
\<close>

definition parseInt :: "string \<Rightarrow> int option" where
  "parseInt s =
     (let s1 = skip_all white_space s;
          neg = (s1 \<noteq> [] \<and> hd s1 = CHR ''-'');
          s2 = (if s1 \<noteq> [] \<and> (hd s1 = CHR ''-'' \<or> hd s1 = CHR ''+'') then tl s1 else s1);
          ds = takeWhile is_digit s2
      in if ds = [] then None
         else Some (if neg then - int (digits_value ds) else int (digits_value ds)))"

subsection \<open>Dates\<close>

text \<open>
  \<open>new Date(ms)\<close> is valid when \<open>|ms| \<le> 8.64e15\<close>. The calendar fields of a valid date
  are those of the proleptic Gregorian calendar in UTC.
\<close>

definition Date_valid :: "int \<Rightarrow> bool" where
  "Date_valid ms = (\<bar>ms\<bar> \<le> 8640000000000000)"

definition civil_from_days :: "int \<Rightarrow> int \<times> int \<times> int" where
  "civil_from_days z =
     (let z1 = z + 719468;
          era = z1 div 146097;
          doe = z1 mod 146097;
          yoe = (doe - doe div 1460 + doe div 36524 - doe div 146096) div 365;
          doy = doe - (365 * yoe + yoe div 4 - yoe div 100);
          mp = (5 * doy + 2) div 153;
          d = doy - (153 * mp + 2) div 5 + 1;
          m = (if mp < 10 then mp + 3 else mp - 9);
          y = yoe + era * 400 + (if m \<le> 2 then 1 else 0)
      in (y, m, d))"

definition getUTCFullYear :: "int \<Rightarrow> int" where
  "getUTCFullYear ms = fst (civil_from_days (ms div 86400000))"

definition getUTCMonth :: "int \<Rightarrow> int" where
  "getUTCMonth ms = fst (snd (civil_from_days (ms div 86400000))) - 1"

definition getUTCDate :: "int \<Rightarrow> int" where
  "getUTCDate ms = snd (snd (civil_from_days (ms div 86400000)))"

definition getUTCHours :: "int \<Rightarrow> int" where
  "getUTCHours ms = (ms div 3600000) mod 24"

definition getUTCMinutes :: "int \<Rightarrow> int" where
  "getUTCMinutes ms = (ms div 60000) mod 60"

definition getUTCSeconds :: "int \<Rightarrow> int" where
  "getUTCSeconds ms = (ms div 1000) mod 60"

definition getUTCMilliseconds :: "int \<Rightarrow> int" where
  "getUTCMilliseconds ms = ms mod 1000"

datatype error = RangeError

text \<open>
  \<open>new Date(ms).toISOString()\<close>: \<open>YYYY-MM-DDTHH:mm:ss.sssZ\<close>, with a signed six-digit
  year outside 0..9999; an invalid date throws a RangeError.
\<close>

definition toISOString :: "int \<Rightarrow> error + string" where
  "toISOString ms =
     (if \<not> Date_valid ms then Inl RangeError
      else
        let y = getUTCFullYear ms;
            year = (if 0 \<le> y \<and> y \<le> 9999 then padStart 4 CHR ''0'' (digits (nat y))
                    else (if y < 0 then ''-'' else ''+'') @ padStart 6 CHR ''0'' (digits (nat \<bar>y\<bar>)))
        in Inr (year @ ''-'' @ padStart 2 CHR ''0'' (String (getUTCMonth ms + 1))
                @ ''-'' @ padStart 2 CHR ''0'' (String (getUTCDate ms))
                @ ''T'' @ padStart 2 CHR ''0'' (String (getUTCHours ms))
                @ '':'' @ padStart 2 CHR ''0'' (String (getUTCMinutes ms))
                @ '':'' @ padStart 2 CHR ''0'' (String (getUTCSeconds ms))
                @ ''.'' @ padStart 3 CHR ''0'' (String (getUTCMilliseconds ms)) @ ''Z''))"

subsection \<open>Data model\<close>

record TeamInfo =
  name :: string
  slug :: string
  short_name :: string
  emoji :: string
  game :: string
  liquipedia_url :: string
  logo_url :: "string option"

text \<open>
  The interface \<open>MatchData\<close> declares the first five fields. The stored JSON is cast to the
  interface unchecked, and the records of the test suite carry an optional \<open>score\<close> as
  well, so the record keeps it; no function of calendar.ts reads it.
\<close>

record MatchData =
  timestamp :: int
  opponent :: string
  tournament :: string
  url :: string
  is_upcoming :: bool
  score :: "string option"

record TeamData =
  team :: TeamInfo
  matches :: "MatchData list"
  generated_utc :: string

subsection \<open>ICS generation\<close>

text \<open>\<open>icsEscape\<close>: \<open>text.replace(/[\\;,]/g, (c) => "\\" + c)\<close>\<close>

definition icsEscape :: "string \<Rightarrow> string" where
  "icsEscape text =
     replace_class (\<lambda>c. c \<in> set [backslash, CHR '';'', CHR '','']) (\<lambda>c. backslash # [c]) text"

definition formatICSDate :: "int \<Rightarrow> string" where
  "formatICSDate ts =
     (let ms = ts * 1000;
          pad = (\<lambda>n. padStart 2 CHR ''0'' (String n))
      in if \<not> Date_valid ms then ''NaNNaNNaNTNaNNaNNaNZ''
         else String (getUTCFullYear ms) @ pad (getUTCMonth ms + 1) @ pad (getUTCDate ms) @ ''T''
              @ pad (getUTCHours ms) @ pad (getUTCMinutes ms) @ pad (getUTCSeconds ms) @ ''Z'')"

text \<open>
  \<open>xs.sort(cmp)\<close>. The platform's sort is stable and its algorithm is left to the engine;
  it is modelled as a stable insertion sort: an element stays in front of the later elements
  it does not compare greater than.
\<close>

fun insert_by :: "('a \<Rightarrow> 'a \<Rightarrow> int) \<Rightarrow> 'a \<Rightarrow> 'a list \<Rightarrow> 'a list" where
  "insert_by cmp x [] = [x]"
| "insert_by cmp x (y # ys) = (if cmp x y \<le> 0 then x # y # ys else y # insert_by cmp x ys)"

definition array_sort :: "('a \<Rightarrow> 'a \<Rightarrow> int) \<Rightarrow> 'a list \<Rightarrow> 'a list" where
  "array_sort cmp xs = foldr (insert_by cmp) xs []"

text \<open>
  The default order of strings compares UTF-16 code unit by code unit, a proper prefix
  first. On UTF-8 text this is the order of the bytes, except that the characters U+E000
  to U+FFFF (lead bytes EE and EF) come after the characters from U+10000 on (lead bytes
  F0 to F4), whose UTF-16 form begins with a surrogate.
\<close>

definition code_unit_key :: "char \<Rightarrow> nat" where
  "code_unit_key c = (if c = CHR 0xEE \<or> c = CHR 0xEF then of_char c + 256 else of_char c)"

definition code_units_less :: "string \<Rightarrow> string \<Rightarrow> bool" where
  "code_units_less a b = (map code_unit_key a < map code_unit_key b)"

text \<open>\<open>xs.sort()\<close> on strings.\<close>

definition sort_strings :: "string list \<Rightarrow> string list" where
  "sort_strings xs =
     array_sort (\<lambda>a b. if code_units_less a b then - 1 else if code_units_less b a then 1 else 0) xs"

text \<open>The token the event UID is built from (lines 220 to 223 of calendar.ts).\<close>

definition ics_opponentSlug :: "MatchData \<Rightarrow> string" where
  "ics_opponentSlug m =
     toLowerCase (replace_char CHR ''_'' ''-'' (replace_space_runs ''-'' (opponent m)))"

text \<open>Lines 225 to 228: the canonical UID.\<close>

definition event_uid :: "TeamInfo \<Rightarrow> MatchData \<Rightarrow> string" where
  "event_uid t m =
     (let teams = sort_strings [toLowerCase (slug t), ics_opponentSlug m]
      in teams ! 0 @ ''-vs-'' @ teams ! 1 @ ''-'' @ String (timestamp m) @ ''@esports-calendar'')"

text \<open>Lines 231 to 237: the description.\<close>

definition event_description :: "MatchData \<Rightarrow> string" where
  "event_description m =
     icsEscape (''Tournament: '' @ tournament m)
     @ (if url m \<noteq> [] then icsEscape ([backslash, CHR ''n'', backslash, CHR ''n''] @ ''More info: '' @ url m) else [])
     @ (if \<not> is_upcoming m then icsEscape ([backslash, CHR ''n'', backslash, CHR ''n''] @ ''(Completed match)'') else [])"

definition generateVEvent :: "TeamInfo \<Rightarrow> MatchData \<Rightarrow> int \<Rightarrow> string list" where
  "generateVEvent t m reminderMinutes =
     (let start = formatICSDate (timestamp m);
          dtend = formatICSDate (timestamp m + 2 * 60 * 60);
          uid = event_uid t m;
          summary = icsEscape (emoji t @ '' '' @ short_name t @ '' vs '' @ opponent m);
          description = event_description m
      in [''BEGIN:VEVENT'',
          ''UID:'' @ uid,
          ''DTSTART:'' @ start,
          ''DTEND:'' @ dtend,
          ''SUMMARY:'' @ summary,
          ''DESCRIPTION:'' @ description,
          ''STATUS:CONFIRMED'']
         @ (if url m \<noteq> [] then [''URL:'' @ url m] else [])
         @ (if \<not> is_upcoming m then [''TRANSP:TRANSPARENT''] else [])
         @ (if is_upcoming m \<and> reminderMinutes > 0 then
              [''BEGIN:VALARM'',
               ''ACTION:DISPLAY'',
               ''DESCRIPTION:'' @ icsEscape (name t @ '' vs '' @ opponent m @ '' starts in ''
                                             @ String reminderMinutes @ '' minutes!''),
               ''TRIGGER:-PT'' @ String reminderMinutes @ ''M'',
               ''END:VALARM'']
            else [])
         @ [''END:VEVENT''])"

definition generateICS :: "TeamData list \<Rightarrow> int \<Rightarrow> string" where
  "generateICS teams reminderMinutes =
     (let teamNames = join '', '' (map (\<lambda>t. name (team t)) teams);
          lines = [''BEGIN:VCALENDAR'',
                   ''VERSION:2.0'',
                   ''PRODID:-//Esports Calendar//'' @ teamNames @ ''//'',
                   ''CALSCALE:GREGORIAN'',
                   ''METHOD:PUBLISH'',
                   ''X-WR-CALNAME:'' @ teamNames @ '' Matches'',
                   ''X-PUBLISHED-TTL:PT4H'']
                  @ concat (map (\<lambda>teamData.
                      concat (map (\<lambda>m. generateVEvent (team teamData) m reminderMinutes)
                                  (matches teamData))) teams)
                  @ [''END:VCALENDAR'']
      in join [CHR 0x0D, CHR 0x0A] lines @ [CHR 0x0D, CHR 0x0A])"

subsection \<open>Rendering loops shared by the feeds\<close>

text \<open>The (team, match) pairs in team order, then match order: the two nested loops.\<close>

definition allMatches :: "TeamData list \<Rightarrow> (TeamInfo \<times> MatchData) list" where
  "allMatches teams = concat (map (\<lambda>teamData. map (\<lambda>m. (team teamData, m)) (matches teamData)) teams)"

text \<open>A loop whose body may throw stops at the first exception.\<close>

fun collect :: "(error + 'a) list \<Rightarrow> error + 'a list" where
  "collect [] = Inr []"
| "collect (r # rs) =
     (case r of
        Inl e \<Rightarrow> Inl e
      | Inr x \<Rightarrow> (case collect rs of Inl e \<Rightarrow> Inl e | Inr xs \<Rightarrow> Inr (x # xs)))"

definition em_dash :: string where
  "em_dash = [CHR 0xE2, CHR 0x80, CHR 0x94]"

definition nl :: string where
  "nl = [CHR 0x0A]"

record URL =
  origin :: string
  href :: string

subsection \<open>JSON Feed\<close>

record JsonItem =
  item_id :: string
  item_title :: string
  date_published :: string
  item_url :: string
  tags :: "string list"
  content_text :: string

record JsonFeed =
  version :: string
  feed_title :: string
  home_page_url :: string
  feed_url :: string
  description :: string
  items :: "JsonItem list"

text \<open>Lines 296 to 298 of calendar.ts.\<close>

definition json_opponentSlug :: "MatchData \<Rightarrow> string" where
  "json_opponentSlug m = toLowerCase (replace_space_runs ''-'' (opponent m))"

definition json_item :: "TeamInfo \<Rightarrow> MatchData \<Rightarrow> error + JsonItem" where
  "json_item t m =
     (case toISOString (timestamp m * 1000) of
        Inl e \<Rightarrow> Inl e
      | Inr dt \<Rightarrow>
          Inr \<lparr> item_id = toLowerCase (slug t) @ ''-'' @ String (timestamp m) @ ''-'' @ json_opponentSlug m,
                item_title = emoji t @ '' '' @ short_name t @ '' vs '' @ opponent m,
                date_published = dt,
                item_url = (if url m \<noteq> [] then url m else liquipedia_url t),
                tags = [if is_upcoming m then ''upcoming'' else ''completed'', tournament m],
                content_text = (if is_upcoming m then ''Upcoming'' else ''Completed'')
                               @ '' '' @ em_dash @ '' '' @ tournament m \<rparr>)"

text \<open>
  The comparator of \<open>items.sort\<close>. \<open>getTime s\<close> stands for \<open>new Date(s).getTime()\<close>, the
  platform's date parser, with \<open>None\<close> for \<open>NaN\<close>; a difference with \<open>NaN\<close> is \<open>NaN\<close>, which
  the sort counts as 0.
\<close>

definition date_cmp :: "(string \<Rightarrow> int option) \<Rightarrow> JsonItem \<Rightarrow> JsonItem \<Rightarrow> int" where
  "date_cmp getTime a b =
     (case (getTime (date_published b), getTime (date_published a)) of
        (Some tb, Some ta) \<Rightarrow> tb - ta
      | _ \<Rightarrow> 0)"

definition generateJSONFeed ::
  "(string \<Rightarrow> int option) \<Rightarrow> TeamData list \<Rightarrow> URL \<Rightarrow> error + JsonFeed" where
  "generateJSONFeed getTime teams requestUrl =
     (case collect (map (\<lambda>(t, m). json_item t m) (allMatches teams)) of
        Inl e \<Rightarrow> Inl e
      | Inr pushed \<Rightarrow>
          let teamNames = join '', '' (map (\<lambda>t. name (team t)) teams)
          in Inr \<lparr> version = ''https://jsonfeed.org/version/1.1'',
                   feed_title = teamNames @ '' Match Schedule'',
                   home_page_url = origin requestUrl,
                   feed_url = href requestUrl,
                   description = ''Upcoming and recent matches for '' @ teamNames,
                   items = array_sort (date_cmp getTime) pushed \<rparr>)"

subsection \<open>Atom feed\<close>

text \<open>\<open>xmlEscape\<close>: five global replacements, the ampersand first.\<close>

definition xmlEscape :: "string \<Rightarrow> string" where
  "xmlEscape text =
     replace_char apostrophe ''&apos;''
       (replace_char dquote ''&quot;''
          (replace_char CHR ''>'' ''&gt;''
             (replace_char CHR ''<'' ''&lt;''
                (replace_char CHR ''&'' ''&amp;'' text))))"

text \<open>Lines 353 to 355 of calendar.ts.\<close>

definition atom_opponentSlug :: "MatchData \<Rightarrow> string" where
  "atom_opponentSlug m = toLowerCase (replace_space_runs ''-'' (opponent m))"

text \<open>The body of the loop over the sorted matches: one \<open><entry>\<close> element.\<close>

definition atom_entry :: "TeamInfo \<Rightarrow> MatchData \<Rightarrow> error + string" where
  "atom_entry t m =
     (case toISOString (timestamp m * 1000) of
        Inl e \<Rightarrow> Inl e
      | Inr dt \<Rightarrow>
          let status = (if is_upcoming m then ''Upcoming'' else ''Completed'');
              title = xmlEscape (emoji t @ '' '' @ short_name t @ '' vs '' @ opponent m);
              tournament_x = xmlEscape (tournament m);
              opponentSlug = atom_opponentSlug m;
              entryId = toLowerCase (slug t) @ ''-'' @ String (timestamp m) @ ''-'' @ opponentSlug
          in Inr (''  <entry>'' @ nl
                  @ ''    <id>urn:esports-calendar:'' @ entryId @ ''</id>'' @ nl
                  @ ''    <title>'' @ title @ ''</title>'' @ nl
                  @ ''    <updated>'' @ dt @ ''</updated>'' @ nl
                  @ ''    <summary>'' @ status @ '' '' @ em_dash @ '' '' @ tournament_x @ ''</summary>'' @ nl
                  @ ''    <link href='' @ [dquote] @ xmlEscape (url m) @ [dquote]
                    @ '' rel='' @ [dquote] @ ''alternate'' @ [dquote] @ ''/>'' @ nl
                  @ ''    <category term='' @ [dquote] @ toLowerCase status @ [dquote] @ ''/>'' @ nl
                  @ ''  </entry>'' @ nl))"

text \<open>\<open>allMatches\<close> after \<open>allMatches.sort((a, b) => b.match.timestamp - a.match.timestamp)\<close>.\<close>

definition sortedMatches :: "TeamData list \<Rightarrow> (TeamInfo \<times> MatchData) list" where
  "sortedMatches teams =
     array_sort (\<lambda>a b. timestamp (snd b) - timestamp (snd a)) (allMatches teams)"

definition atom_header :: "string \<Rightarrow> TeamData list \<Rightarrow> URL \<Rightarrow> string" where
  "atom_header now teams requestUrl =
     (let teamNames = join '', '' (map (\<lambda>t. name (team t)) teams);
          teamSlugs = join ''-'' (map (\<lambda>t. toLowerCase (slug (team t))) teams)
      in ''<?xml version='' @ [dquote] @ ''1.0'' @ [dquote] @ '' encoding='' @ [dquote] @ ''UTF-8''
           @ [dquote] @ ''?>'' @ nl
         @ ''<feed xmlns='' @ [dquote] @ ''http://www.w3.org/2005/Atom'' @ [dquote] @ ''>'' @ nl
         @ ''  <id>urn:esports-calendar:'' @ xmlEscape teamSlugs @ ''</id>'' @ nl
         @ ''  <title>'' @ xmlEscape teamNames @ '' Match Schedule</title>'' @ nl
         @ ''  <subtitle>Upcoming and recent matches</subtitle>'' @ nl
         @ ''  <updated>'' @ now @ ''</updated>'' @ nl
         @ ''  <link href='' @ [dquote] @ xmlEscape (href requestUrl) @ [dquote] @ '' rel='' @ [dquote]
           @ ''self'' @ [dquote] @ '' type='' @ [dquote] @ ''application/atom+xml'' @ [dquote] @ ''/>'' @ nl
         @ ''  <generator>esports-calendar</generator>'' @ nl)"

text \<open>\<open>now\<close> is \<open>new Date().toISOString()\<close>, the time of the render.\<close>

definition generateAtomFeed :: "string \<Rightarrow> TeamData list \<Rightarrow> URL \<Rightarrow> error + string" where
  "generateAtomFeed now teams requestUrl =
     (case collect (map (\<lambda>(t, m). atom_entry t m) (sortedMatches teams)) of
        Inl e \<Rightarrow> Inl e
      | Inr entries \<Rightarrow> Inr (atom_header now teams requestUrl @ concat entries @ ''</feed>'' @ nl))"

subsection \<open>Request handling\<close>

text \<open>
  The body of a response is text, or the JSON text of a feed object
  (\<open>JSON.stringify\<close> of the feed is kept as the feed itself).
\<close>

datatype payload = NoBody | TextBody string | JsonBody JsonFeed

record Response =
  status :: nat
  body :: payload
  headers :: "(string \<times> string) list"

definition header_set :: "string \<Rightarrow> string \<Rightarrow> (string \<times> string) list \<Rightarrow> (string \<times> string) list" where
  "header_set k v hs = filter (\<lambda>kv. fst kv \<noteq> k) hs @ [(k, v)]"

definition corsResponse :: "Response \<Rightarrow> Response" where
  "corsResponse response =
     response\<lparr> headers :=
       header_set ''Access-Control-Allow-Headers'' ''Content-Type''
         (header_set ''Access-Control-Allow-Methods'' ''GET, OPTIONS''
            (header_set ''Access-Control-Allow-Origin'' ''*'' (headers response))) \<rparr>"

definition text_response :: "nat \<Rightarrow> string \<Rightarrow> Response" where
  "text_response code msg = \<lparr> status = code, body = TextBody msg, headers = [] \<rparr>"

text \<open>
  The request: its method and the query parameters as \<open>url.searchParams.get\<close> returns them
  (\<open>None\<close> is \<open>null\<close>).
\<close>

record Request =
  request_method :: string
  teams_q :: "string option"
  format_q :: "string option"
  tournament_q :: "string option"
  reminder_q :: "string option"
  request_url :: URL

text \<open>
  The storage: the R2 bucket, when bound, and the static assets. A lookup yields the parsed
  team data, or nothing (no such object, a response that is not ok), or it throws (the
  request or the parsing of the JSON fails).
\<close>

datatype 'a lookup = Found 'a | Missing | Throws

record Env =
  DATA_BUCKET :: "(string \<Rightarrow> TeamData lookup) option"
  ASSETS :: "string \<Rightarrow> TeamData lookup"

definition invalid_reminder_response :: Response where
  "invalid_reminder_response =
     corsResponse (text_response 400
       (''Invalid '' @ [apostrophe] @ ''reminder'' @ [apostrophe]
        @ '' parameter. Must be an integer between 0 and 1440.''))"

text \<open>Lines 57 to 71: the reminder, or the response that rejects it.\<close>

definition parse_reminder :: "string option \<Rightarrow> Response + int" where
  "parse_reminder reminderParam =
     (case reminderParam of
        None \<Rightarrow> Inr 30
      | Some p \<Rightarrow>
          (case parseInt p of
             None \<Rightarrow> Inl invalid_reminder_response
           | Some parsed \<Rightarrow>
               if parsed < 0 \<or> parsed > 1440 then Inl invalid_reminder_response
               else Inr parsed))"

definition SLUG_PATTERN :: "string \<Rightarrow> bool" where
  "SLUG_PATTERN s =
     (s \<noteq> [] \<and>
      list_all (\<lambda>c. c \<in> set ''abcdefghijklmnopqrstuvwxyzABCDEFGHIJKLMNOPQRSTUVWXYZ0123456789_-'') s)"

text \<open>
  Lines 96 to 126: one team, from R2 first and from the assets when R2 has nothing. One
  \<open>try\<close> block spans both lookups, so a team whose lookup throws is skipped (\<open>None\<close>),
  also when it is the lookup in R2. The slug has passed \<open>SLUG_PATTERN\<close>, so it is ASCII.
\<close>

definition load_team :: "Env \<Rightarrow> URL \<Rightarrow> string \<Rightarrow> TeamData option" where
  "load_team env u slug_q =
     (let key = toLowerCase slug_q @ ''.json'';
          data = (case DATA_BUCKET env of None \<Rightarrow> Missing | Some bucket \<Rightarrow> bucket key)
      in case data of
           Throws \<Rightarrow> None
         | Found d \<Rightarrow> Some d
         | Missing \<Rightarrow>
             (case ASSETS env (origin u @ ''/data/'' @ key) of
                Found d \<Rightarrow> Some d
              | Missing \<Rightarrow> None
              | Throws \<Rightarrow> None))"

text \<open>
  Lines 44 to 132: everything before the filter. The result is the response of an early
  return, or the reminder and the loaded team data.
\<close>

definition validate_and_load :: "Env \<Rightarrow> Request \<Rightarrow> Response + (int \<times> TeamData list)" where
  "validate_and_load env req =
     (if request_method req = ''OPTIONS'' then
        Inl (corsResponse \<lparr> status = 204, body = NoBody, headers = [] \<rparr>)
      else if request_method req \<noteq> ''GET'' then
        Inl (corsResponse (text_response 405 ''Method not allowed''))
      else
        let teamsParam = (case teams_q req of None \<Rightarrow> [] | Some p \<Rightarrow> p)
        in case parse_reminder (reminder_q req) of
             Inl rejected \<Rightarrow> Inl rejected
           | Inr reminderMinutes \<Rightarrow>
               let slugs = filter (\<lambda>s. s \<noteq> []) (map trim (split_str CHR '','' teamsParam))
               in if slugs = [] then
                    Inl (corsResponse (text_response 400
                      (''Missing '' @ [apostrophe] @ ''teams'' @ [apostrophe]
                       @ '' parameter. Usage: /api/calendar?teams=Los_Ratones,Fnatic'')))
                  else
                    case find (\<lambda>s. \<not> SLUG_PATTERN s) slugs of
                      Some bad \<Rightarrow>
                        Inl (corsResponse (text_response 400 (''Invalid team slug: '' @ bad)))
                    | None \<Rightarrow>
                        let teamDataList = List.map_filter (load_team env (request_url req)) slugs
                        in if teamDataList = [] then
                             Inl (corsResponse (text_response 404
                               ''No data found for the requested teams''))
                           else Inr (reminderMinutes, teamDataList))"

text \<open>Lines 134 to 142: the tournament filter, applied to the loaded data in place.\<close>

definition filter_by_tournament :: "string \<Rightarrow> TeamData list \<Rightarrow> TeamData list" where
  "filter_by_tournament tournamentFilter teamDataList =
     (if tournamentFilter \<noteq> [] then
        let filter_lc = toLowerCase tournamentFilter
        in map (\<lambda>teamData. teamData\<lparr> matches :=
                  filter (\<lambda>m. includes_str (toLowerCase (tournament m)) filter_lc)
                         (matches teamData) \<rparr>) teamDataList
      else teamDataList)"

definition ics_response :: "string \<Rightarrow> Response" where
  "ics_response ics =
     corsResponse \<lparr> status = 200, body = TextBody ics,
       headers = [(''Content-Type'', ''text/calendar; charset=utf-8''),
                  (''Cache-Control'', ''public, max-age=3600''),
                  (''Content-Disposition'',
                   ''inline; filename='' @ [dquote] @ ''esports-calendar.ics'' @ [dquote])] \<rparr>"

definition json_response :: "JsonFeed \<Rightarrow> Response" where
  "json_response feed =
     corsResponse \<lparr> status = 200, body = JsonBody feed,
       headers = [(''Content-Type'', ''application/feed+json; charset=utf-8''),
                  (''Cache-Control'', ''public, max-age=3600'')] \<rparr>"

definition atom_response :: "string \<Rightarrow> Response" where
  "atom_response xml =
     corsResponse \<lparr> status = 200, body = TextBody xml,
       headers = [(''Content-Type'', ''application/atom+xml; charset=utf-8''),
                  (''Cache-Control'', ''public, max-age=3600'')] \<rparr>"

text \<open>Lines 144 to 177: the switch on the format. An exception of a renderer is \<open>Inl\<close>.\<close>

definition render ::
  "(string \<Rightarrow> int option) \<Rightarrow> string \<Rightarrow> string \<Rightarrow> TeamData list \<Rightarrow> int \<Rightarrow> URL \<Rightarrow> error + Response" where
  "render getTime now format teamDataList reminderMinutes u =
     (if format = ''ics'' then Inr (ics_response (generateICS teamDataList reminderMinutes))
      else if format = ''json'' then
        (case generateJSONFeed getTime teamDataList u of
           Inl e \<Rightarrow> Inl e
         | Inr feed \<Rightarrow> Inr (json_response feed))
      else if format = ''rss'' then
        (case generateAtomFeed now teamDataList u of
           Inl e \<Rightarrow> Inl e
         | Inr xml \<Rightarrow> Inr (atom_response xml))
      else Inr (corsResponse (text_response 400 ''Unknown format. Use: ics, json, or rss'')))"

text \<open>
  \<open>onRequest\<close>. \<open>getTime\<close> is the platform's date parser and \<open>now\<close> the time of the render
  as an ISO string; \<open>x || "d"\<close> takes \<open>d\<close> for \<open>null\<close> and for the empty string.
\<close>

definition onRequest ::
  "Env \<Rightarrow> (string \<Rightarrow> int option) \<Rightarrow> string \<Rightarrow> Request \<Rightarrow> error + Response" where
  "onRequest env getTime now req =
     (let format = (case format_q req of None \<Rightarrow> ''ics'' | Some f \<Rightarrow> if f = [] then ''ics'' else f);
          tournamentFilter = (case tournament_q req of None \<Rightarrow> [] | Some f \<Rightarrow> f)
      in case validate_and_load env req of
           Inl early \<Rightarrow> Inr early
         | Inr (reminderMinutes, teamDataList) \<Rightarrow>
             render getTime now format (filter_by_tournament tournamentFilter teamDataList)
               reminderMinutes (request_url req))"

subsection \<open>Records of the test suite\<close>

definition FUTURE_TS :: int where
  "FUTURE_TS = 1767268800"

definition PAST_TS :: int where
  "PAST_TS = 1767096000"

definition flag_EU :: string where
  "flag_EU = [CHR 0xF0, CHR 0x9F, CHR 0x87, CHR 0xAA, CHR 0xF0, CHR 0x9F, CHR 0x87, CHR 0xBA]"

definition fnatic :: TeamInfo where
  "fnatic = \<lparr> name = ''Fnatic'', slug = ''Fnatic'', short_name = ''FNC'', emoji = flag_EU,
              game = ''leagueoflegends'',
              liquipedia_url = ''https://liquipedia.net/leagueoflegends/Fnatic'',
              logo_url = None \<rparr>"

definition g2 :: TeamInfo where
  "g2 = \<lparr> name = ''G2 Esports'', slug = ''G2_Esports'', short_name = ''G2'', emoji = flag_EU,
          game = ''leagueoflegends'',
          liquipedia_url = ''https://liquipedia.net/leagueoflegends/G2_Esports'',
          logo_url = None \<rparr>"

definition fnatic_vs_g2 :: MatchData where
  "fnatic_vs_g2 = \<lparr> timestamp = FUTURE_TS, opponent = ''G2 Esports'',
                    tournament = ''LEC 2025 Spring'',
                    url = ''https://liquipedia.net/leagueoflegends/LEC/2025'',
                    is_upcoming = True, score = None \<rparr>"

definition fnatic_vs_mad :: MatchData where
  "fnatic_vs_mad = \<lparr> timestamp = PAST_TS, opponent = ''MAD Lions'',
                     tournament = ''LEC 2025 Spring'',
                     url = ''https://liquipedia.net/leagueoflegends/LEC/2025'',
                     is_upcoming = False, score = Some ''2 : 1'' \<rparr>"

definition g2_vs_fnatic :: MatchData where
  "g2_vs_fnatic = \<lparr> timestamp = FUTURE_TS, opponent = ''Fnatic'',
                    tournament = ''LEC 2025 Spring'',
                    url = ''https://liquipedia.net/leagueoflegends/LEC/2025'',
                    is_upcoming = True, score = None \<rparr>"

definition TEAM_A :: TeamData where
  "TEAM_A = \<lparr> team = fnatic, matches = [fnatic_vs_g2, fnatic_vs_mad],
              generated_utc = ''2025-12-31T12:00:00.000Z'' \<rparr>"

definition TEAM_B :: TeamData where
  "TEAM_B = \<lparr> team = g2, matches = [g2_vs_fnatic],
              generated_utc = ''2025-12-31T12:00:00.000Z'' \<rparr>"

definition test_url :: URL where
  "test_url = \<lparr> origin = ''https://example.com'',
                href = ''https://example.com/api/calendar?teams=Fnatic'' \<rparr>"

definition test_env :: Env where
  "test_env =
     \<lparr> DATA_BUCKET =
         Some (\<lambda>key. case map_of [(''fnatic.json'', TEAM_A), (''g2_esports.json'', TEAM_B)] key of
                        Some d \<Rightarrow> Found d
                      | None \<Rightarrow> Missing),
       ASSETS = (\<lambda>_. Missing) \<rparr>"

text \<open>The date parser on the two dates of the records.\<close>

definition test_getTime :: "string \<Rightarrow> int option" where
  "test_getTime = map_of [(''2026-01-01T12:00:00.000Z'', 1767268800000),
                          (''2025-12-30T12:00:00.000Z'', 1767096000000)]"

definition test_now :: string where
  "test_now = ''2025-12-31T12:00:00.000Z''"

definition test_request :: Request where
  "test_request = \<lparr> request_method = ''GET'', teams_q = Some ''Fnatic'', format_q = None,
                    tournament_q = None, reminder_q = None, request_url = test_url \<rparr>"

text \<open>
  The separator of the description segments as it is rendered: the two characters
  \<open>\n\<close>, twice, each backslash doubled by the escaper.
\<close>

definition escaped_break :: string where
  "escaped_break = [backslash, backslash, CHR ''n'', backslash, backslash, CHR ''n'']"

subsection \<open>Notions of the specification\<close>

text \<open>The entity the specification assigns to a character in XML text.\<close>

definition xml_entity :: "char \<Rightarrow> string" where
  "xml_entity c =
     (if c = CHR ''&'' then ''&amp;''
      else if c = CHR ''<'' then ''&lt;''
      else if c = CHR ''>'' then ''&gt;''
      else if c = dquote then ''&quot;''
      else if c = apostrophe then ''&apos;''
      else [c])"




text \<open>
  Reading an escaped ICS value back: a backslash is dropped and the character after it is
  kept as it is.
\<close>

fun ics_unescape :: "string \<Rightarrow> string" where
  "ics_unescape [] = []"
| "ics_unescape [c] = [c]"
| "ics_unescape (c # d # cs) =
     (if c = backslash then d # ics_unescape cs else c # ics_unescape (d # cs))"


text \<open>A numeric string: an optional sign, then decimal digits and nothing else.\<close>

definition numeric_string :: "string \<Rightarrow> bool" where
  "numeric_string s =
     (let t = (if s \<noteq> [] \<and> (hd s = CHR ''-'' \<or> hd s = CHR ''+'') then tl s else s)
      in t \<noteq> [] \<and> list_all is_digit t)"

section \<open>Properties\<close>

subsection \<open>Evaluation of the definitions on literals\<close>

declare digits.simps [simp del]

lemma digits_numeral [simp]:
  "digits (numeral k) =
     (if (numeral k :: nat) < 10 then [digit_char (numeral k)]
      else digits (numeral k div 10) @ [digit_char (numeral k mod 10)])"
  by (rule digits.simps)

lemma digits_0 [simp]: "digits 0 = ''0''"
  by (subst digits.simps) (simp add: digit_char_def)

lemma digits_Suc_0 [simp]: "digits (Suc 0) = ''1''"
  by (subst digits.simps) (simp add: digit_char_def)

lemmas string_eval =
  toLowerCase_def toLowerChar_def lower_table_def replace_char_def match_length_def
  white_space_def String_def digit_char_def backslash_def dquote_def apostrophe_def padStart_def

lemmas record_eval =
  fnatic_def g2_def fnatic_vs_g2_def fnatic_vs_mad_def g2_vs_fnatic_def TEAM_A_def TEAM_B_def
  FUTURE_TS_def PAST_TS_def flag_EU_def

lemmas event_eval =
  generateVEvent_def event_uid_def event_description_def ics_opponentSlug_def icsEscape_def
  sort_strings_def array_sort_def code_units_less_def code_unit_key_def

lemma formatICSDate_past: "formatICSDate 1767096000 = ''20251230T120000Z''"
  by code_simp

lemma formatICSDate_past_end: "formatICSDate 1767103200 = ''20251230T140000Z''"
  by code_simp

subsection \<open>Global replacements\<close>

lemma replace_class_append:
  "replace_class p f (xs @ ys) = replace_class p f xs @ replace_class p f ys"
  by (induction xs) simp_all

lemma replace_class_concat_map:
  "replace_class p f s = concat (map (\<lambda>c. if p c then f c else [c]) s)"
  by (induction s) simp_all

lemma replace_char_Nil [simp]: "replace_char c r [] = []"
  by (simp add: replace_char_def)

lemma replace_char_Cons [simp]:
  "replace_char c r (x # xs) = (if x = c then r @ replace_char c r xs else x # replace_char c r xs)"
  by (simp add: replace_char_def)

lemma replace_char_append:
  "replace_char c r (xs @ ys) = replace_char c r xs @ replace_char c r ys"
  by (simp add: replace_char_def replace_class_append)

subsection \<open>The event identifier\<close>

lemma uid_fnatic_side:
  "event_uid fnatic fnatic_vs_g2 = ''fnatic-vs-g2-esports-1767268800@esports-calendar''"
  by (simp add: event_eval string_eval record_eval)

lemma uid_g2_side:
  "event_uid g2 g2_vs_fnatic = ''fnatic-vs-g2_esports-1767268800@esports-calendar''"
  by (simp add: event_eval string_eval record_eval)

lemma code_unit_key_inj: "code_unit_key a = code_unit_key b \<Longrightarrow> a = b"
proof -
  have small: "(of_char c :: nat) < 256" for c :: char
    using mod_less_divisor [of 256 "of_char c :: nat"] by simp
  have moved: "256 \<le> code_unit_key c" if "c = CHR 0xEE \<or> c = CHR 0xEF" for c
    using that by (auto simp: code_unit_key_def)
  have kept: "code_unit_key c = of_char c \<and> code_unit_key c < 256"
    if "\<not> (c = CHR 0xEE \<or> c = CHR 0xEF)" for c
    using that small [of c] by (simp add: code_unit_key_def)
  assume eq: "code_unit_key a = code_unit_key b"
  show ?thesis
  proof (cases "a = CHR 0xEE \<or> a = CHR 0xEF")
    case True
    show ?thesis
    proof (cases "b = CHR 0xEE \<or> b = CHR 0xEF")
      case b: True
      with True eq show ?thesis by (auto simp: code_unit_key_def)
    next
      case False
      with moved [OF True] kept [OF False] eq show ?thesis by simp
    qed
  next
    case False
    show ?thesis
    proof (cases "b = CHR 0xEE \<or> b = CHR 0xEF")
      case True
      with moved [OF True] kept [OF False] eq show ?thesis by simp
    next
      case b: False
      from kept [OF False] have ka: "code_unit_key a = of_char a" ..
      from kept [OF b] have kb: "code_unit_key b = of_char b" ..
      from eq have "(of_char a :: nat) = of_char b" unfolding ka kb .
      then show ?thesis by (rule of_char_eqI)
    qed
  qed
qed

lemma code_units_linear: "\<not> code_units_less a b \<Longrightarrow> \<not> code_units_less b a \<Longrightarrow> a = b"
proof -
  assume "\<not> code_units_less a b" and "\<not> code_units_less b a"
  then have "map code_unit_key a = map code_unit_key b"
    by (simp add: code_units_less_def)
  then show ?thesis
    by (induction a arbitrary: b) (auto dest: code_unit_key_inj)
qed

lemma sort_strings_pair:
  "sort_strings [a, b] = (if code_units_less b a then [b, a] else [a, b])"
  by (auto simp: sort_strings_def array_sort_def code_units_less_def)

lemma sort_strings_commute: "sort_strings [a, b] = sort_strings [b, a]"
  using code_units_linear [of a b]
  by (auto simp: sort_strings_pair code_units_less_def)

text \<open>
  The sort does make the UID independent of the side, as far as the two tokens agree:
  when each team's lower-cased slug is the token of the opponent in the other record.
\<close>

lemma event_uid_commutes_on_matching_tokens:
  assumes "toLowerCase (slug a) = ics_opponentSlug mb" and "toLowerCase (slug b) = ics_opponentSlug ma"
    and "timestamp ma = timestamp mb"
  shows "event_uid a ma = event_uid b mb"
  using assms sort_strings_commute [of "ics_opponentSlug mb" "ics_opponentSlug ma"]
  by (simp add: event_uid_def)

text \<open>
  Claim C1: when two teams each record the same match, the UIDs that \<open>generateVEvent\<close>
  produces from the two records are identical. The code lower-cases the team's own slug
  but does not turn its underscores into hyphens, as it does for the opponent's name. For
  the records of the test suite, Fnatic against G2 Esports (slug \<open>G2_Esports\<close>) at the same
  time, the UID line is \<open>fnatic-vs-g2-esports-...\<close> from Fnatic's record and
  \<open>fnatic-vs-g2_esports-...\<close> from G2's record: the two differ.
\<close>

theorem uid_differs_between_the_two_sides:
  "generateVEvent fnatic fnatic_vs_g2 30 ! 1 = ''UID:fnatic-vs-g2-esports-1767268800@esports-calendar''
   \<and> generateVEvent g2 g2_vs_fnatic 30 ! 1 = ''UID:fnatic-vs-g2_esports-1767268800@esports-calendar''
   \<and> timestamp fnatic_vs_g2 = timestamp g2_vs_fnatic
   \<and> opponent fnatic_vs_g2 = name g2 \<and> opponent g2_vs_fnatic = name fnatic"
  by (simp add: generateVEvent_def Let_def uid_fnatic_side uid_g2_side)
     (simp add: record_eval)

subsection \<open>The lines of an event\<close>

lemma past_event:
  "generateVEvent fnatic fnatic_vs_mad 30 =
     [''BEGIN:VEVENT'',
      ''UID:fnatic-vs-mad-lions-1767096000@esports-calendar'',
      ''DTSTART:20251230T120000Z'',
      ''DTEND:20251230T140000Z'',
      ''SUMMARY:'' @ flag_EU @ '' FNC vs MAD Lions'',
      ''DESCRIPTION:Tournament: LEC 2025 Spring'' @ escaped_break
        @ ''More info: https://liquipedia.net/leagueoflegends/LEC/2025'' @ escaped_break
        @ ''(Completed match)'',
      ''STATUS:CONFIRMED'',
      ''URL:https://liquipedia.net/leagueoflegends/LEC/2025'',
      ''TRANSP:TRANSPARENT'',
      ''END:VEVENT'']"
  by (simp add: event_eval string_eval record_eval escaped_break_def
        formatICSDate_past formatICSDate_past_end)

lemma generateVEvent_ignores_score:
  "generateVEvent t (m\<lparr>score := sc\<rparr>) reminderMinutes = generateVEvent t m reminderMinutes"
  by (simp add: generateVEvent_def event_uid_def event_description_def ics_opponentSlug_def)

text \<open>
  Claim C2: for a completed match that carries a score, the DESCRIPTION of its event
  contains \<open>Score: {score}\<close>. The code never reads the score. For the completed match of
  the test suite (Fnatic against MAD Lions, score \<open>2 : 1\<close>) the DESCRIPTION line holds the
  tournament, the link and the completed marker, and \<open>Score: 2 : 1\<close> does not occur in it.
\<close>

theorem score_missing_from_description:
  "score fnatic_vs_mad = Some ''2 : 1'' \<and> \<not> is_upcoming fnatic_vs_mad
   \<and> generateVEvent fnatic fnatic_vs_mad 30 ! 5 =
       ''DESCRIPTION:Tournament: LEC 2025 Spring'' @ escaped_break
       @ ''More info: https://liquipedia.net/leagueoflegends/LEC/2025'' @ escaped_break
       @ ''(Completed match)''
   \<and> \<not> includes_str (generateVEvent fnatic fnatic_vs_mad 30 ! 5) ''Score: 2 : 1''"
  by (simp add: past_event) (simp add: fnatic_vs_mad_def escaped_break_def backslash_def)

text \<open>
  Claim C4: the lines of an event hold a VALARM block exactly when the match is upcoming
  and the reminder is greater than 0. The block is five lines, from \<open>BEGIN:VALARM\<close> to
  \<open>END:VALARM\<close>, and sits immediately before \<open>END:VEVENT\<close>.
\<close>

theorem valarm_iff_upcoming_and_reminder:
  "(''BEGIN:VALARM'' \<in> set (generateVEvent t m reminderMinutes)) = (is_upcoming m \<and> 0 < reminderMinutes)
   \<and> (''END:VALARM'' \<in> set (generateVEvent t m reminderMinutes)) = (is_upcoming m \<and> 0 < reminderMinutes)
   \<and> (is_upcoming m \<and> 0 < reminderMinutes \<longrightarrow>
        (\<exists>before alarm_text.
           generateVEvent t m reminderMinutes =
             before @ [''BEGIN:VALARM'', ''ACTION:DISPLAY'', ''DESCRIPTION:'' @ alarm_text,
                       ''TRIGGER:-PT'' @ String reminderMinutes @ ''M'', ''END:VALARM'',
                       ''END:VEVENT'']))"
  by (simp add: generateVEvent_def Let_def)

theorem valarm_iff_upcoming_and_reminder_witness:
  "''BEGIN:VALARM'' \<in> set (generateVEvent fnatic fnatic_vs_g2 30)
   \<and> ''BEGIN:VALARM'' \<notin> set (generateVEvent fnatic fnatic_vs_g2 0)
   \<and> ''BEGIN:VALARM'' \<notin> set (generateVEvent fnatic fnatic_vs_mad 30)"
  using valarm_iff_upcoming_and_reminder [of fnatic fnatic_vs_g2 30]
    valarm_iff_upcoming_and_reminder [of fnatic fnatic_vs_g2 0]
    valarm_iff_upcoming_and_reminder [of fnatic fnatic_vs_mad 30]
  by (simp add: fnatic_vs_g2_def fnatic_vs_mad_def)

text \<open>
  Claim C5: the lines of an event hold \<open>TRANSP:TRANSPARENT\<close> exactly when the match is
  not upcoming.
\<close>

theorem transp_iff_not_upcoming:
  "(''TRANSP:TRANSPARENT'' \<in> set (generateVEvent t m reminderMinutes)) = (\<not> is_upcoming m)"
  by (simp add: generateVEvent_def Let_def)

theorem transp_iff_not_upcoming_witness:
  "''TRANSP:TRANSPARENT'' \<in> set (generateVEvent fnatic fnatic_vs_mad 30)
   \<and> ''TRANSP:TRANSPARENT'' \<notin> set (generateVEvent fnatic fnatic_vs_g2 30)"
  using transp_iff_not_upcoming [of fnatic fnatic_vs_mad 30]
    transp_iff_not_upcoming [of fnatic fnatic_vs_g2 30]
  by (simp add: fnatic_vs_g2_def fnatic_vs_mad_def)

subsection \<open>Escaping\<close>

lemma icsEscape_concat:
  "icsEscape s =
     concat (map (\<lambda>c. if c = backslash \<or> c = CHR '';'' \<or> c = CHR '','' then [backslash, c] else [c]) s)"
  by (simp add: icsEscape_def replace_class_concat_map)

lemma icsEscape_length:
  "length (icsEscape s) =
     length s + length (filter (\<lambda>c. c = backslash \<or> c = CHR '';'' \<or> c = CHR '','') s)"
  by (induction s) (simp_all add: icsEscape_def)

lemma ics_unescape_plain: "c \<noteq> backslash \<Longrightarrow> ics_unescape (c # cs) = c # ics_unescape cs"
  by (cases cs) simp_all

lemma icsEscape_roundtrip: "ics_unescape (icsEscape s) = s"
  by (induction s) (simp_all add: icsEscape_def ics_unescape_plain)

text \<open>
  Claim C7: the ICS escaper puts exactly one backslash in front of every backslash,
  semicolon and comma of its input and copies every other character: the output is the
  input with each of the three characters \<open>c\<close> replaced by backslash, \<open>c\<close>, so it is longer
  than the input by the number of such characters, and dropping the inserted backslashes
  gives the input back.
\<close>

theorem icsEscape_spec:
  "icsEscape s =
     concat (map (\<lambda>c. if c = backslash \<or> c = CHR '';'' \<or> c = CHR '','' then [backslash, c] else [c]) s)
   \<and> length (icsEscape s) =
     length s + length (filter (\<lambda>c. c = backslash \<or> c = CHR '';'' \<or> c = CHR '','') s)
   \<and> ics_unescape (icsEscape s) = s"
  using icsEscape_concat icsEscape_length icsEscape_roundtrip by simp

theorem icsEscape_spec_witness:
  "icsEscape (''a;b,c'' @ [backslash] @ ''d'')
     = ''a'' @ [backslash] @ '';b'' @ [backslash] @ '',c'' @ [backslash, backslash] @ ''d''"
  using icsEscape_spec [of "''a;b,c'' @ [backslash] @ ''d''"] by (simp add: backslash_def)

lemma xmlEscape_Nil: "xmlEscape [] = []"
  by (simp add: xmlEscape_def)

lemma xmlEscape_Cons: "xmlEscape (c # cs) = xml_entity c @ xmlEscape cs"
  by (simp add: xmlEscape_def xml_entity_def replace_char_append dquote_def apostrophe_def)

lemma xmlEscape_concat: "xmlEscape s = concat (map xml_entity s)"
  by (induction s) (simp_all add: xmlEscape_Nil xmlEscape_Cons)

lemma xml_entity_cases:
  "xml_entity c = [c] \<and> c \<notin> {CHR ''&'', CHR ''<'', CHR ''>'', dquote, apostrophe}
   \<or> (\<exists>e \<in> {''amp;'', ''lt;'', ''gt;'', ''quot;'', ''apos;''}. xml_entity c = CHR ''&'' # e)"
  by (simp add: xml_entity_def)

lemma xmlEscape_no_raw: "set (xmlEscape s) \<inter> {CHR ''<'', CHR ''>'', dquote, apostrophe} = {}"
  by (induction s)
     (auto simp: xmlEscape_Nil xmlEscape_Cons xml_entity_def dquote_def apostrophe_def
           split: if_splits)

lemma split_after_clean:
  assumes "xs @ ys = pre @ a # post" and "a \<notin> set xs"
  shows "\<exists>pre'. pre = xs @ pre' \<and> ys = pre' @ a # post"
  using assms
proof (induction xs arbitrary: pre)
  case Nil
  then show ?case by simp
next
  case (Cons x xs)
  then show ?case by (cases pre) auto
qed

lemma xmlEscape_amp_entity:
  assumes "xmlEscape s = pre @ CHR ''&'' # post"
  shows "\<exists>e \<in> {''amp;'', ''lt;'', ''gt;'', ''quot;'', ''apos;''}. \<exists>rest. post = e @ rest"
  using assms
proof (induction s arbitrary: pre)
  case Nil
  then show ?case by (simp add: xmlEscape_Nil)
next
  case (Cons c cs)
  from xml_entity_cases [of c] show ?case
  proof
    assume plain: "xml_entity c = [c] \<and> c \<notin> {CHR ''&'', CHR ''<'', CHR ''>'', dquote, apostrophe}"
    with Cons.prems have eq: "c # xmlEscape cs = pre @ CHR ''&'' # post"
      by (simp add: xmlEscape_Cons)
    from plain have "c \<noteq> CHR ''&''" by simp
    with eq obtain pre' where "pre = c # pre'" by (cases pre) auto
    with eq have "xmlEscape cs = pre' @ CHR ''&'' # post" by simp
    then show ?thesis by (rule Cons.IH)
  next
    assume "\<exists>e \<in> {''amp;'', ''lt;'', ''gt;'', ''quot;'', ''apos;''}. xml_entity c = CHR ''&'' # e"
    then obtain e where e: "e \<in> {''amp;'', ''lt;'', ''gt;'', ''quot;'', ''apos;''}"
      and ent: "xml_entity c = CHR ''&'' # e" by blast
    from e have clean: "CHR ''&'' \<notin> set e" by auto
    from Cons.prems ent have eq: "CHR ''&'' # e @ xmlEscape cs = pre @ CHR ''&'' # post"
      by (simp add: xmlEscape_Cons)
    show ?thesis
    proof (cases pre)
      case Nil
      with eq have "post = e @ xmlEscape cs" by simp
      with e show ?thesis by blast
    next
      case (Cons p pre1)
      with eq have "e @ xmlEscape cs = pre1 @ CHR ''&'' # post" by simp
      from split_after_clean [OF this clean]
      obtain pre2 where "xmlEscape cs = pre2 @ CHR ''&'' # post" by blast
      then show ?thesis by (rule Cons.IH)
    qed
  qed
qed

text \<open>
  Claim C8: the XML escaper replaces every \<open>&\<close>, \<open><\<close>, \<open>>\<close>, double quote and apostrophe
  of its input by its named entity and copies every other character; although the five
  replacements run one after the other, the ampersand first, no entity is escaped twice.
  In the output none of \<open><\<close>, \<open>>\<close>, double quote and apostrophe occurs, and every
  ampersand is the start of one of the five entities.
\<close>

theorem xmlEscape_spec:
  "xmlEscape s = concat (map xml_entity s)
   \<and> set (xmlEscape s) \<inter> {CHR ''<'', CHR ''>'', dquote, apostrophe} = {}
   \<and> (\<forall>pre post. xmlEscape s = pre @ CHR ''&'' # post \<longrightarrow>
        (\<exists>e \<in> {''amp;'', ''lt;'', ''gt;'', ''quot;'', ''apos;''}. \<exists>rest. post = e @ rest))"
proof (intro conjI allI impI)
  show "xmlEscape s = concat (map xml_entity s)" by (rule xmlEscape_concat)
  show "set (xmlEscape s) \<inter> {CHR ''<'', CHR ''>'', dquote, apostrophe} = {}"
    by (rule xmlEscape_no_raw)
next
  fix pre post
  assume "xmlEscape s = pre @ CHR ''&'' # post"
  then show "\<exists>e \<in> {''amp;'', ''lt;'', ''gt;'', ''quot;'', ''apos;''}. \<exists>rest. post = e @ rest"
    by (rule xmlEscape_amp_entity)
qed

theorem xmlEscape_spec_witness:
  "xmlEscape (''a&b<c>'' @ [dquote, apostrophe]) = ''a&amp;b&lt;c&gt;&quot;&apos;''"
  using xmlEscape_spec [of "''a&b<c>'' @ [dquote, apostrophe]"]
  by (simp add: xml_entity_def dquote_def apostrophe_def)

subsection \<open>Identifiers of the JSON and Atom feeds\<close>

lemma toISOString_future: "toISOString 1767268800000 = Inr ''2026-01-01T12:00:00.000Z''"
  by code_simp



lemma toLowerChar_underscore: "(toLowerChar c = CHR ''_'') = (c = CHR ''_'')"
proof (cases "map_of lower_table c")
  case None
  then show ?thesis by (simp add: toLowerChar_def)
next
  case (Some l)
  then have "(c, l) \<in> set lower_table" by (rule map_of_SomeD)
  then have "l \<in> set ''abcdefghijklmnopqrstuvwxyz''" and "c \<in> set ''ABCDEFGHIJKLMNOPQRSTUVWXYZ''"
    unfolding lower_table_def by (auto dest: set_zip_rightD set_zip_leftD)
  then have "l \<noteq> CHR ''_''" and "c \<noteq> CHR ''_''" by auto
  with Some show ?thesis by (simp add: toLowerChar_def)
qed

lemma underscore_toLowerCase: "(CHR ''_'' \<in> set (toLowerCase s)) = (CHR ''_'' \<in> set s)"
proof -
  have "(CHR ''_'' \<in> toLowerChar ` set s) = (\<exists>c \<in> set s. toLowerChar c = CHR ''_'')"
    by (metis image_iff)
  then show ?thesis by (simp add: toLowerCase_def toLowerChar_underscore)
qed

lemma startsWith_iff: "startsWith s p = (\<exists>post. s = p @ post)"
proof (induction p arbitrary: s)
  case Nil
  then show ?case by simp
next
  case (Cons a p)
  then show ?case by (cases s) auto
qed

text \<open>A match is one of the tokens, and the string goes on after it.\<close>

lemma match_length_token:
  assumes "match_length tokens s \<noteq> 0"
  shows "\<exists>w \<in> set tokens. s = w @ drop (match_length tokens s) s"
proof -
  from assms obtain w where f: "find (startsWith s) tokens = Some w"
    and k: "match_length tokens s = length w"
    by (auto simp: match_length_def split: option.splits)
  from f have "w \<in> set tokens" and "startsWith s w"
    by (auto simp: find_Some_iff)
  then obtain post where "s = w @ post" by (auto simp: startsWith_iff)
  with k \<open>w \<in> set tokens\<close> show ?thesis by auto
qed

lemma no_underscore_in_white_space: "w \<in> set white_space \<Longrightarrow> CHR ''_'' \<notin> set w"
  by (auto simp: white_space_def)

lemma underscore_after_space:
  assumes "match_length white_space (c # cs) \<noteq> 0"
  shows "(CHR ''_'' \<in> set (drop (match_length white_space (c # cs) - 1) cs))
           = (CHR ''_'' \<in> set (c # cs))"
proof -
  from match_length_token [OF assms] obtain w where w: "w \<in> set white_space"
    and eq: "c # cs = w @ drop (match_length white_space (c # cs)) (c # cs)" by blast
  from assms have "drop (match_length white_space (c # cs)) (c # cs)
      = drop (match_length white_space (c # cs) - 1) cs"
    by (cases "match_length white_space (c # cs)") simp_all
  with eq have "set (c # cs) = set w \<union> set (drop (match_length white_space (c # cs) - 1) cs)"
    by (metis set_append)
  with no_underscore_in_white_space [OF w] show ?thesis by auto
qed

lemma underscore_skip_space:
  "(CHR ''_'' \<in> set (skip_all white_space s)) = (CHR ''_'' \<in> set s)"
proof (induction "white_space" s rule: skip_all.induct)
  case 1
  then show ?case by simp
next
  case (2 c cs)
  show ?case
  proof (cases "match_length white_space (c # cs) = 0")
    case True
    then show ?thesis by simp
  next
    case False
    with 2 underscore_after_space [OF False] show ?thesis by simp
  qed
qed

lemma underscore_replace_space_runs:
  "(CHR ''_'' \<in> set (replace_space_runs ''-'' s)) = (CHR ''_'' \<in> set s)"
proof (induction "''-''" s rule: replace_space_runs.induct)
  case 1
  then show ?case by simp
next
  case (2 c cs)
  show ?case
  proof (cases "match_length white_space (c # cs) = 0")
    case True
    with 2(1) show ?thesis by auto
  next
    case False
    with 2(2) underscore_after_space [OF False] show ?thesis
      by (simp add: underscore_skip_space)
  qed
qed

lemma no_underscore_replace_char: "CHR ''_'' \<notin> set (replace_char CHR ''_'' ''-'' s)"
  by (induction s) simp_all

text \<open>
  Claim C10: for every team and match, the Atom entry id is \<open>urn:esports-calendar:\<close>
  followed by exactly the id of the JSON Feed item of the same pair. Both are
  \<open>{slug lower-cased}-{timestamp}-{opponent token}\<close> with the same token, which lower-cases
  the opponent and replaces runs of white space by hyphens; the token keeps the
  underscores of the opponent, while the token of the ICS UID has none. Both renderers
  throw together when the timestamp is no valid date.
\<close>

theorem atom_id_is_urn_of_json_id:
  "(json_item t m = Inl RangeError \<and> atom_entry t m = Inl RangeError
    \<or> (\<exists>it rest.
          json_item t m = Inr it
          \<and> item_id it = toLowerCase (slug t) @ ''-'' @ String (timestamp m) @ ''-'' @ json_opponentSlug m
          \<and> atom_entry t m =
              Inr (''  <entry>'' @ nl @ ''    <id>urn:esports-calendar:'' @ item_id it @ ''</id>'' @ rest)))
   \<and> atom_opponentSlug m = json_opponentSlug m
   \<and> (CHR ''_'' \<in> set (json_opponentSlug m)) = (CHR ''_'' \<in> set (opponent m))
   \<and> CHR ''_'' \<notin> set (ics_opponentSlug m)"
proof (intro conjI)
  show "json_item t m = Inl RangeError \<and> atom_entry t m = Inl RangeError
    \<or> (\<exists>it rest.
          json_item t m = Inr it
          \<and> item_id it = toLowerCase (slug t) @ ''-'' @ String (timestamp m) @ ''-'' @ json_opponentSlug m
          \<and> atom_entry t m =
              Inr (''  <entry>'' @ nl @ ''    <id>urn:esports-calendar:'' @ item_id it @ ''</id>'' @ rest))"
  proof (cases "toISOString (timestamp m * 1000)")
    case (Inl e)
    then show ?thesis by (cases e) (simp add: json_item_def atom_entry_def)
  next
    case (Inr dt)
    then show ?thesis
      by (simp add: json_item_def atom_entry_def Let_def atom_opponentSlug_def json_opponentSlug_def)
  qed
  show "atom_opponentSlug m = json_opponentSlug m"
    by (simp add: atom_opponentSlug_def json_opponentSlug_def)
  show "(CHR ''_'' \<in> set (json_opponentSlug m)) = (CHR ''_'' \<in> set (opponent m))"
    by (simp add: json_opponentSlug_def underscore_toLowerCase underscore_replace_space_runs)
  show "CHR ''_'' \<notin> set (ics_opponentSlug m)"
    by (simp add: ics_opponentSlug_def underscore_toLowerCase no_underscore_replace_char)
qed

theorem atom_id_is_urn_of_json_id_witness:
  "map_sum id item_id (json_item fnatic fnatic_vs_g2) = Inr ''fnatic-1767268800-g2-esports''
   \<and> (\<exists>rest. atom_entry fnatic fnatic_vs_g2 =
         Inr (''  <entry>'' @ nl @ ''    <id>urn:esports-calendar:fnatic-1767268800-g2-esports</id>'' @ rest))"
  using atom_id_is_urn_of_json_id [of fnatic fnatic_vs_g2]
  by (auto simp add: json_item_def json_opponentSlug_def string_eval record_eval toISOString_future)

subsection \<open>Order of the feeds\<close>




















subsection \<open>The tournament filter\<close>












subsection \<open>Validation of the reminder\<close>

lemma parse_reminder_Inl: "parse_reminder q = Inl resp \<Longrightarrow> resp = invalid_reminder_response"
  by (auto simp: parse_reminder_def split: option.splits if_splits)

text \<open>A rejected reminder ends the request before any team is loaded or rendered.\<close>

lemma reminder_rejected_before_loading:
  assumes "request_method req = ''GET''" and "parse_reminder (reminder_q req) = Inl resp"
  shows "onRequest env getTime now req = Inr invalid_reminder_response"
  using assms parse_reminder_Inl [OF assms(2)]
  by (simp add: onRequest_def validate_and_load_def)

lemma parseInt_values:
  "parseInt ''0'' = Some 0" "parseInt ''1440'' = Some 1440"
  "parseInt ''-1'' = Some (- 1)" "parseInt ''1441'' = Some 1441"
  "parseInt ''12abc'' = Some 12" "parseInt ''abc'' = None"
  by (simp_all add: parseInt_def match_length_def white_space_def is_digit_def digits_value_def
        digit_value_def)

lemma accepted_reminder:
  assumes "parseInt p = Some n" and "0 \<le> n" and "n \<le> 1440"
  shows "onRequest test_env test_getTime test_now (test_request\<lparr>reminder_q := Some p\<rparr>)
           = Inr (ics_response (generateICS [TEAM_A] n))"
proof -
  from assms have "parse_reminder (Some p) = Inr n"
    by (simp add: parse_reminder_def)
  then have "validate_and_load test_env (test_request\<lparr>reminder_q := Some p\<rparr>) = Inr (n, [TEAM_A])"
    by (simp add: validate_and_load_def trim_def SLUG_PATTERN_def load_team_def test_request_def
          test_env_def test_url_def List.map_filter_def match_length_def white_space_def
          toLowerCase_def toLowerChar_def lower_table_def)
  then show ?thesis
    by (simp add: onRequest_def render_def filter_by_tournament_def test_request_def)
qed

lemma rejected_reminder:
  assumes "parseInt p = None \<or> (\<exists>n. parseInt p = Some n \<and> (n < 0 \<or> 1440 < n))"
  shows "onRequest test_env test_getTime test_now (test_request\<lparr>reminder_q := Some p\<rparr>)
           = Inr invalid_reminder_response"
proof -
  from assms have "parse_reminder (Some p) = Inl invalid_reminder_response"
    by (auto simp: parse_reminder_def)
  then show ?thesis
    by (intro reminder_rejected_before_loading) (simp_all add: test_request_def)
qed

text \<open>
  Claim C3: the reminder values 0 and 1440 are accepted; -1, 1441 and non-numeric strings
  are rejected before any rendering. The handler validates what \<open>parseInt\<close> reads, and
  \<open>parseInt\<close> stops at the first character that is no digit: the non-numeric string
  \<open>12abc\<close> is accepted and the calendar is rendered with a reminder of 12 minutes, although
  the message of the handler asks for an integer between 0 and 1440. On 0, 1440, -1, 1441
  and \<open>abc\<close> the handler does what the claim says.
\<close>

theorem reminder_with_trailing_text_accepted:
  "\<not> numeric_string ''12abc''
   \<and> onRequest test_env test_getTime test_now (test_request\<lparr>reminder_q := Some ''12abc''\<rparr>)
       = Inr (ics_response (generateICS [TEAM_A] 12))
   \<and> onRequest test_env test_getTime test_now (test_request\<lparr>reminder_q := Some ''0''\<rparr>)
       = Inr (ics_response (generateICS [TEAM_A] 0))
   \<and> onRequest test_env test_getTime test_now (test_request\<lparr>reminder_q := Some ''1440''\<rparr>)
       = Inr (ics_response (generateICS [TEAM_A] 1440))
   \<and> onRequest test_env test_getTime test_now (test_request\<lparr>reminder_q := Some ''-1''\<rparr>)
       = Inr invalid_reminder_response
   \<and> onRequest test_env test_getTime test_now (test_request\<lparr>reminder_q := Some ''1441''\<rparr>)
       = Inr invalid_reminder_response
   \<and> onRequest test_env test_getTime test_now (test_request\<lparr>reminder_q := Some ''abc''\<rparr>)
       = Inr invalid_reminder_response"
  by (simp add: numeric_string_def is_digit_def parseInt_values accepted_reminder rejected_reminder)

end
